theory Spec2Isabelle
  imports Main
begin

section \<open>JavaScript values\<close>

text \<open>
  The browser extension is an asynchronous TypeScript module.  A JavaScript string is
  modelled as a \<open>string\<close>, one list element per unit that \<open>length\<close> and \<open>slice\<close>
  count.  A thrown value is an \<open>error\<close>: the class of the error object with its
  message.  The extension itself only ever throws \<open>Error\<close>; the other classes are what
  the runtime (\<open>TypeError\<close>) and the browser driver (\<open>TimeoutError\<close>, \<open>ProtocolError\<close>)
  throw.  A number parameter is modelled by its integer values.
\<close>

datatype error = Error string | TypeError string | TimeoutError string | ProtocolError string

datatype jsval = JUndefined | JBool bool | JNum int | JStr string

definition tick :: string where
  \<comment> \<open>the check mark U+2713 that starts every confirmation line, as its three UTF-8
      bytes; nothing below reads its length\<close>
  "tick = [CHR 0xE2, CHR 0x9C, CHR 0x93]"

definition newline :: string where
  "newline = [CHR 0x0A]"

definition quote :: string where
  "quote = [CHR 0x27]"

definition truthy :: "bool option \<Rightarrow> bool" where
  \<comment> \<open>an optional boolean used as a condition: \<open>undefined\<close> and \<open>false\<close> are falsy\<close>
  "truthy b = (b = Some True)"

definition given :: "string option \<Rightarrow> string option" where
  \<comment> \<open>an optional string used as a condition: \<open>undefined\<close> and the empty string are falsy\<close>
  "given s = (case s of None \<Rightarrow> None | Some t \<Rightarrow> if t = [] then None else Some t)"

definition or_default :: "int option \<Rightarrow> int \<Rightarrow> int" where
  \<comment> \<open>\<open>x || dflt\<close> on an optional number: \<open>undefined\<close> and \<open>0\<close> are falsy\<close>
  "or_default x dflt = (case x of None \<Rightarrow> dflt | Some n \<Rightarrow> if n = 0 then dflt else n)"

definition slice0 :: "string \<Rightarrow> int \<Rightarrow> string" where
  \<comment> \<open>\<open>s.slice(0, n)\<close>: a negative end counts from the end of the string\<close>
  "slice0 s n = (if n < 0 then take (nat (int (length s) + n)) s else take (nat n) s)"

definition opt_bool :: "bool option \<Rightarrow> jsval" where
  "opt_bool b = (case b of None \<Rightarrow> JUndefined | Some v \<Rightarrow> JBool v)"

definition opt_str :: "string option \<Rightarrow> jsval" where
  "opt_str s = (case s of None \<Rightarrow> JUndefined | Some v \<Rightarrow> JStr v)"

function show_nat :: "nat \<Rightarrow> string" where
  "show_nat n = (if n < 10 then [char_of (48 + n)] else show_nat (n div 10) @ [char_of (48 + n mod 10)])"
  by pat_completeness auto
termination
  by (relation "measure id") auto

definition show_int :: "int \<Rightarrow> string" where
  \<comment> \<open>a number interpolated into a template string\<close>
  "show_int i = (if i < 0 then CHR ''-'' # show_nat (nat (- i)) else show_nat (nat i))"


section \<open>The browser driver and the session\<close>

text \<open>
  The driver (puppeteer and the browser behind it) is outside the extension.  Every call
  the extension makes to it is a \<open>call\<close>; the \<open>trace\<close> of the world records each call
  with the reply it got, in the order the calls were made.  What the driver answers is
  given by a \<open>driver\<close>: whether the call made after a given history throws (and what), and
  otherwise the handle, element, text or number it returns.  A \<open>driver\<close> is any such
  function of the history, so a theorem for all drivers covers every behaviour of the
  browser.  \<open>accessSync\<close> is the file system: whether \<open>accessSync(p, X_OK)\<close> returns.
\<close>

type_synonym handle = nat

datatype call =
    Launch string "string list"
  | NewPage handle
  | SetViewport handle nat nat
  | SetUserAgent handle string
  | CloseBrowser handle
  | Goto handle string string
  | Title handle
  | Url handle
  | Content handle
  | Query handle string
  | PageScreenshot handle "bool option"
  | ElementScreenshot handle
  | WaitForNavigation handle string
  | Click handle string
  | ElementClick handle nat
  | ElementPress handle string
  | ElementType handle string
  | ElementText handle
  | BodyInnerText handle
  | ScrollBy handle int
  | ScrollToBottom handle
  | ScrollToTop handle
  | ScrollY handle
  | WaitForSelector handle string "int option"
  | OnUpdate string

datatype reply =
    Threw error
  | Returned
  | Gave_handle handle
  | Gave_element "handle option"
  | Gave_text string
  | Gave_number int

type_synonym event = "call \<times> reply"

record driver =
  accessSync :: "string \<Rightarrow> bool"
  fails :: "event list \<Rightarrow> call \<Rightarrow> error option"
  handle_of :: "event list \<Rightarrow> call \<Rightarrow> handle"
  element_of :: "event list \<Rightarrow> call \<Rightarrow> handle option"
  text_of :: "event list \<Rightarrow> call \<Rightarrow> string"
  number_of :: "event list \<Rightarrow> call \<Rightarrow> int"
  nav_rejects_first :: "event list \<Rightarrow> bool"

text \<open>
  The module-level variables \<open>browser\<close> and \<open>page\<close> (both \<open>null\<close> at load time), and the
  trace of driver calls.
\<close>

record world =
  browser :: "handle option"
  page :: "handle option"
  trace :: "event list"

definition initial :: world where
  "initial = \<lparr>browser = None, page = None, trace = []\<rparr>"

text \<open>The cancellation signal the host passes: whether it has been raised, at each history.\<close>

type_synonym abort_signal = "event list \<Rightarrow> bool"

datatype content_item = Text string | Image string string

record envelope =
  content :: "content_item list"
  details :: "(string \<times> jsval) list"


section \<open>Asynchronous steps\<close>

text \<open>
  An \<open>async\<close> function is a step on the world that either throws (\<open>Inl\<close>) or returns
  (\<open>Inr\<close>).  \<open>await m f\<close> runs \<open>m\<close> and continues with \<open>f\<close> on its value; an error of \<open>m\<close>
  ends the step, as an exception that no \<open>try\<close> encloses does.
\<close>

type_synonym 'a step = "world \<Rightarrow> (error + 'a) \<times> world"

definition resolve :: "'a \<Rightarrow> 'a step" where
  "resolve x w = (Inr x, w)"

definition throw :: "error \<Rightarrow> 'a step" where
  "throw e w = (Inl e, w)"

definition await :: "'a step \<Rightarrow> ('a \<Rightarrow> 'b step) \<Rightarrow> 'b step" where
  "await m f w = (case m w of (Inl e, w') \<Rightarrow> (Inl e, w') | (Inr x, w') \<Rightarrow> f x w')"

definition invoke :: "driver \<Rightarrow> (driver \<Rightarrow> event list \<Rightarrow> call \<Rightarrow> 'a) \<Rightarrow> ('a \<Rightarrow> reply) \<Rightarrow> call \<Rightarrow> 'a step" where
  \<comment> \<open>one awaited driver call: it is recorded with its reply\<close>
  "invoke d answer tag c w =
     (case fails d (trace w) c of
        Some e \<Rightarrow> (Inl e, w\<lparr>trace := trace w @ [(c, Threw e)]\<rparr>)
      | None \<Rightarrow> (let v = answer d (trace w) c in (Inr v, w\<lparr>trace := trace w @ [(c, tag v)]\<rparr>)))"

definition call_unit :: "driver \<Rightarrow> call \<Rightarrow> unit step" where
  "call_unit d = invoke d (\<lambda>_ _ _. ()) (\<lambda>_. Returned)"

definition call_handle :: "driver \<Rightarrow> call \<Rightarrow> handle step" where
  "call_handle d = invoke d handle_of Gave_handle"

definition call_element :: "driver \<Rightarrow> call \<Rightarrow> handle option step" where
  "call_element d = invoke d element_of Gave_element"

definition call_text :: "driver \<Rightarrow> call \<Rightarrow> string step" where
  "call_text d = invoke d text_of Gave_text"

definition call_number :: "driver \<Rightarrow> call \<Rightarrow> int step" where
  "call_number d = invoke d number_of Gave_number"

definition promise_all :: "driver \<Rightarrow> call \<Rightarrow> call \<Rightarrow> unit step" where
  \<comment> \<open>\<open>await Promise.all([a, b])\<close>: both calls are started, in this order; it rejects with
      the rejection that comes first\<close>
  "promise_all d a b w =
     (let ra = fails d (trace w) a;
          ea = (a, case ra of Some e \<Rightarrow> Threw e | None \<Rightarrow> Returned);
          rb = fails d (trace w @ [ea]) b;
          eb = (b, case rb of Some e \<Rightarrow> Threw e | None \<Rightarrow> Returned);
          w' = w\<lparr>trace := trace w @ [ea, eb]\<rparr>
      in case (ra, rb) of
           (None, None) \<Rightarrow> (Inr (), w')
         | (Some e, None) \<Rightarrow> (Inl e, w')
         | (None, Some e) \<Rightarrow> (Inl e, w')
         | (Some e1, Some e2) \<Rightarrow> (Inl (if nav_rejects_first d (trace w) then e1 else e2), w'))"

definition notify :: "bool \<Rightarrow> string \<Rightarrow> unit step" where
  \<comment> \<open>\<open>onUpdate?.({content: [{type: "text", text: msg}]})\<close>: the host's progress callback,
      called when the host supplied one; it is taken to return\<close>
  "notify onUpdate msg w =
     (if onUpdate then (Inr (), w\<lparr>trace := trace w @ [(OnUpdate msg, Returned)]\<rparr>) else (Inr (), w))"

definition deref :: "handle option \<Rightarrow> string \<Rightarrow> handle step" where
  \<comment> \<open>reading a method of the page returned by \<open>getPage\<close>: on \<open>null\<close> the runtime throws\<close>
  "deref p method =
     (case p of
        None \<Rightarrow> throw (TypeError (''Cannot read properties of null (reading '' @ quote @ method @ quote @ '')''))
      | Some h \<Rightarrow> resolve h)"

definition find_element :: "driver \<Rightarrow> handle \<Rightarrow> string \<Rightarrow> handle step" where
  \<comment> \<open>\<open>const element = await p.$(selector); if (!element) throw new Error(...)\<close>\<close>
  "find_element d h selector =
     await (call_element d (Query h selector)) (\<lambda>element.
       case element of
         None \<Rightarrow> throw (Error (''Element not found: '' @ selector))
       | Some el \<Rightarrow> resolve el)"

section \<open>Locating the browser and acquiring the session\<close>

definition chrome_paths :: "string list" where
  "chrome_paths =
     [''/usr/bin/chromium-browser'',
      ''/usr/bin/chromium'',
      ''/usr/bin/google-chrome'',
      ''/usr/bin/google-chrome-stable'',
      ''/usr/bin/chrome'']"

definition chrome_not_found :: error where
  "chrome_not_found = Error ''Chrome/Chromium not found. Install with: sudo dnf install chromium''"

fun probe :: "(string \<Rightarrow> bool) \<Rightarrow> string list \<Rightarrow> error + string" where
  \<comment> \<open>the loop of \<open>findChrome\<close>: the first path whose \<open>accessSync\<close> does not throw\<close>
  "probe executable [] = Inl chrome_not_found"
| "probe executable (p # ps) = (if executable p then Inr p else probe executable ps)"

definition findChrome :: "(string \<Rightarrow> bool) \<Rightarrow> error + string" where
  "findChrome executable = probe executable chrome_paths"

definition launch_args :: "string list" where
  "launch_args =
     [''--no-sandbox'',
      ''--disable-setuid-sandbox'',
      ''--disable-dev-shm-usage'',
      ''--disable-gpu'',
      ''--disable-web-security'',
      ''--disable-features=IsolateOrigins,site-per-process'']"

definition user_agent :: string where
  "user_agent = ''Mozilla/5.0 (X11; Linux x86_64) AppleWebKit/537.36 (KHTML, like Gecko) Chrome/120.0.0.0 Safari/537.36''"

definition set_browser :: "handle option \<Rightarrow> unit step" where
  "set_browser b w = (Inr (), w\<lparr>browser := b\<rparr>)"

definition set_page :: "handle option \<Rightarrow> unit step" where
  "set_page p w = (Inr (), w\<lparr>page := p\<rparr>)"

definition getPage :: "driver \<Rightarrow> handle option step" where
  \<comment> \<open>returns \<open>page!\<close>, the variable as it is: the assertion is erased at run time\<close>
  "getPage d w =
     (if browser w = None then
        await (\<lambda>w. (findChrome (accessSync d), w)) (\<lambda>chromePath.
        await (call_handle d (Launch chromePath launch_args)) (\<lambda>b.
        await (set_browser (Some b)) (\<lambda>_.
        await (call_handle d (NewPage b)) (\<lambda>pg.
        await (set_page (Some pg)) (\<lambda>_.
        await (call_unit d (SetViewport pg 1920 1080)) (\<lambda>_.
        await (call_unit d (SetUserAgent pg user_agent)) (\<lambda>_.
        (\<lambda>w. (Inr (page w), w))))))))) w
      else (Inr (page w), w))"


section \<open>The tools\<close>

text \<open>
  Each \<open>execute\<close> takes the tool's parameters (an optional parameter is an \<open>option\<close>),
  the cancellation signal and whether the host supplied the progress callback; the call
  id, which no tool reads, is left out.  \<open>browser_get_text\<close>, \<open>browser_scroll\<close> and
  \<open>browser_close\<close> declare neither the signal nor the callback.
\<close>

definition browser_navigate_execute ::
  "driver \<Rightarrow> string \<Rightarrow> bool option \<Rightarrow> abort_signal \<Rightarrow> bool \<Rightarrow> envelope step" where
  "browser_navigate_execute d url waitForLoad signal onUpdate =
     await (getPage d) (\<lambda>p.
     await (notify onUpdate (''Navigating to '' @ url @ ''...'')) (\<lambda>_.
     await (deref p ''goto'') (\<lambda>h.
     await (call_unit d (Goto h url (if truthy waitForLoad then ''networkidle0'' else ''domcontentloaded''))) (\<lambda>_.
     await (call_text d (Title h)) (\<lambda>title.
     await (call_text d (Url h)) (\<lambda>u.
     resolve \<lparr>content = [Text (tick @ '' Loaded: '' @ title), Text (''URL: '' @ u)],
              details = [(''title'', JStr title), (''url'', JStr u)]\<rparr>))))))"

definition browser_screenshot_execute ::
  "driver \<Rightarrow> bool option \<Rightarrow> string option \<Rightarrow> abort_signal \<Rightarrow> bool \<Rightarrow> envelope step" where
  "browser_screenshot_execute d fullPage selector signal onUpdate =
     await (getPage d) (\<lambda>p.
     await (notify onUpdate ''Taking screenshot...'') (\<lambda>_.
     await (case given selector of
              Some s \<Rightarrow>
                await (deref p ''$'') (\<lambda>h.
                await (find_element d h s) (\<lambda>element.
                call_text d (ElementScreenshot element)))
            | None \<Rightarrow>
                await (deref p ''screenshot'') (\<lambda>h.
                call_text d (PageScreenshot h fullPage))) (\<lambda>screenshot.
     resolve \<lparr>content =
                [Text (tick @ '' '' @
                   (case given selector of
                      Some s \<Rightarrow> ''Screenshot of element: '' @ s
                    | None \<Rightarrow> if truthy fullPage then ''Full page screenshot'' else ''Viewport screenshot'')),
                 Image screenshot ''image/png''],
              details = [(''fullPage'', opt_bool fullPage), (''selector'', opt_str selector)]\<rparr>)))"

definition browser_click_execute ::
  "driver \<Rightarrow> string \<Rightarrow> bool option \<Rightarrow> abort_signal \<Rightarrow> bool \<Rightarrow> envelope step" where
  "browser_click_execute d selector waitForNavigation signal onUpdate =
     await (getPage d) (\<lambda>p.
     await (notify onUpdate (''Clicking: '' @ selector @ ''...'')) (\<lambda>_.
     await (deref p ''$'') (\<lambda>h.
     await (find_element d h selector) (\<lambda>element.
     await (if truthy waitForNavigation
            then promise_all d (WaitForNavigation h ''networkidle0'') (Click h selector)
            else call_unit d (Click h selector)) (\<lambda>_.
     await (call_text d (Url h)) (\<lambda>u1.
     await (call_text d (Url h)) (\<lambda>u2.
     resolve \<lparr>content = [Text (tick @ '' Clicked: '' @ selector), Text (''Current URL: '' @ u1)],
              details = [(''selector'', JStr selector), (''url'', JStr u2)]\<rparr>)))))))"

definition browser_type_execute ::
  "driver \<Rightarrow> string \<Rightarrow> string \<Rightarrow> bool option \<Rightarrow> bool option \<Rightarrow> abort_signal \<Rightarrow> bool \<Rightarrow> envelope step" where
  "browser_type_execute d selector typed clearFirst pressEnter signal onUpdate =
     await (getPage d) (\<lambda>p.
     await (notify onUpdate (''Typing into: '' @ selector @ ''...'')) (\<lambda>_.
     await (deref p ''$'') (\<lambda>h.
     await (find_element d h selector) (\<lambda>element.
     await (if truthy clearFirst
            then await (call_unit d (ElementClick element 3)) (\<lambda>_.
                 call_unit d (ElementPress element ''Backspace''))
            else resolve ()) (\<lambda>_.
     await (call_unit d (ElementType element typed)) (\<lambda>_.
     await (if truthy pressEnter then call_unit d (ElementPress element ''Enter'') else resolve ()) (\<lambda>_.
     resolve \<lparr>content =
                [Text (tick @ '' Typed into: '' @ selector),
                 Text (''Text: '' @ slice0 typed 50 @ (if length typed > 50 then ''...'' else []))],
              details = [(''selector'', JStr selector), (''textLength'', JNum (int (length typed)))]\<rparr>)))))))"

definition truncation_marker :: string where
  "truncation_marker = newline @ ''...[truncated]''"

definition browser_get_text_execute ::
  "driver \<Rightarrow> string option \<Rightarrow> int option \<Rightarrow> envelope step" where
  "browser_get_text_execute d selector maxLength =
     await (getPage d) (\<lambda>p.
     await (case given selector of
              Some s \<Rightarrow>
                await (deref p ''$'') (\<lambda>h.
                await (find_element d h s) (\<lambda>element.
                call_text d (ElementText element)))
            | None \<Rightarrow>
                await (deref p ''evaluate'') (\<lambda>h.
                call_text d (BodyInnerText h))) (\<lambda>extracted.
     let maxLen = or_default maxLength 10000;
         truncated =
           (if int (length extracted) > maxLen then slice0 extracted maxLen @ truncation_marker
            else extracted)
     in
     await (deref p ''url'') (\<lambda>h.
     await (call_text d (Url h)) (\<lambda>u.
     resolve \<lparr>content = [Text truncated],
              details =
                [(''length'', JNum (int (length extracted))),
                 (''truncated'', JBool (int (length extracted) > maxLen)),
                 (''url'', JStr u)]\<rparr>))))"

definition browser_scroll_execute ::
  "driver \<Rightarrow> string \<Rightarrow> int option \<Rightarrow> envelope step" where
  "browser_scroll_execute d direction amount =
     await (getPage d) (\<lambda>p.
     let pixels = or_default amount 800 in
     await (if direction = ''down'' then
              await (deref p ''evaluate'') (\<lambda>h. call_unit d (ScrollBy h pixels))
            else if direction = ''up'' then
              await (deref p ''evaluate'') (\<lambda>h. call_unit d (ScrollBy h (- pixels)))
            else if direction = ''bottom'' then
              await (deref p ''evaluate'') (\<lambda>h. call_unit d (ScrollToBottom h))
            else if direction = ''top'' then
              await (deref p ''evaluate'') (\<lambda>h. call_unit d (ScrollToTop h))
            else resolve ()) (\<lambda>_.
     await (deref p ''evaluate'') (\<lambda>h.
     await (call_number d (ScrollY h)) (\<lambda>scrollPos.
     resolve \<lparr>content =
                [Text (tick @ '' Scrolled '' @ direction @ '' (position: '' @ show_int scrollPos @ ''px)'')],
              details = [(''direction'', JStr direction), (''scrollPosition'', JNum scrollPos)]\<rparr>))))"

definition browser_wait_for_execute ::
  "driver \<Rightarrow> string \<Rightarrow> int option \<Rightarrow> abort_signal \<Rightarrow> bool \<Rightarrow> envelope step" where
  "browser_wait_for_execute d selector timeout signal onUpdate =
     await (getPage d) (\<lambda>p.
     await (notify onUpdate (''Waiting for: '' @ selector @ ''...'')) (\<lambda>_.
     await (deref p ''waitForSelector'') (\<lambda>h.
     await (call_unit d (WaitForSelector h selector timeout)) (\<lambda>_.
     resolve \<lparr>content = [Text (tick @ '' Element appeared: '' @ selector)],
              details = [(''selector'', JStr selector)]\<rparr>))))"

definition browser_debug_execute ::
  "driver \<Rightarrow> bool option \<Rightarrow> abort_signal \<Rightarrow> bool \<Rightarrow> envelope step" where
  "browser_debug_execute d includeHtml signal onUpdate =
     await (getPage d) (\<lambda>p.
     await (notify onUpdate ''Capturing debug info...'') (\<lambda>_.
     await (deref p ''screenshot'') (\<lambda>h.
     await (call_text d (PageScreenshot h (Some True))) (\<lambda>screenshot.
     await (call_text d (Title h)) (\<lambda>title.
     await (call_text d (Url h)) (\<lambda>u.
     let items =
           [Text ''Debug Info:'',
            Text (''Title: '' @ title),
            Text (''URL: '' @ u),
            Image screenshot ''image/png'']
     in
     await (if truthy includeHtml
            then await (call_text d (Content h)) (\<lambda>html.
                 resolve (items @
                   [Text (''HTML preview:'' @ newline @ slice0 html 3000 @
                      (if length html > 3000 then truncation_marker else []))]))
            else resolve items) (\<lambda>items'.
     resolve \<lparr>content = items', details = [(''title'', JStr title), (''url'', JStr u)]\<rparr>)))))))"

definition closed_envelope :: envelope where
  "closed_envelope = \<lparr>content = [Text (tick @ '' Browser closed'')], details = []\<rparr>"

definition browser_close_execute :: "driver \<Rightarrow> envelope step" where
  "browser_close_execute d =
     await (\<lambda>w. (case browser w of
                   Some b \<Rightarrow>
                     await (call_unit d (CloseBrowser b)) (\<lambda>_.
                     await (set_browser None) (\<lambda>_.
                     set_page None))
                 | None \<Rightarrow> resolve ()) w) (\<lambda>_.
     resolve closed_envelope)"

definition swallow :: "unit step \<Rightarrow> unit step" where
  \<comment> \<open>\<open>m.catch(() => {})\<close>\<close>
  "swallow m w = (case m w of (_, w') \<Rightarrow> (Inr (), w'))"

definition session_shutdown :: "driver \<Rightarrow> unit step" where
  \<comment> \<open>the handler registered for the host's \<open>session_shutdown\<close> notification\<close>
  "session_shutdown d w =
     (case browser w of
        Some b \<Rightarrow>
          await (swallow (call_unit d (CloseBrowser b))) (\<lambda>_.
          await (set_browser None) (\<lambda>_.
          set_page None)) w
      | None \<Rightarrow> resolve () w)"

text \<open>
  The eight action tools as the host sees them: a tool name with its parameters, and the
  \<open>execute\<close> registered under that name.  \<open>run\<close> issues a sequence of actions one at a
  time, whatever each returns or throws.
\<close>

datatype action =
    Navigate string "bool option"
  | Screenshot "bool option" "string option"
  | ClickOn string "bool option"
  | TypeInto string string "bool option" "bool option"
  | GetText "string option" "int option"
  | Scroll string "int option"
  | WaitFor string "int option"
  | DebugCapture "bool option"

fun execute :: "driver \<Rightarrow> action \<Rightarrow> abort_signal \<Rightarrow> bool \<Rightarrow> envelope step" where
  "execute d (Navigate url waitForLoad) signal onUpdate = browser_navigate_execute d url waitForLoad signal onUpdate"
| "execute d (Screenshot fullPage selector) signal onUpdate = browser_screenshot_execute d fullPage selector signal onUpdate"
| "execute d (ClickOn selector waitForNavigation) signal onUpdate = browser_click_execute d selector waitForNavigation signal onUpdate"
| "execute d (TypeInto selector typed clearFirst pressEnter) signal onUpdate = browser_type_execute d selector typed clearFirst pressEnter signal onUpdate"
| "execute d (GetText selector maxLength) signal onUpdate = browser_get_text_execute d selector maxLength"
| "execute d (Scroll direction amount) signal onUpdate = browser_scroll_execute d direction amount"
| "execute d (WaitFor selector timeout) signal onUpdate = browser_wait_for_execute d selector timeout signal onUpdate"
| "execute d (DebugCapture includeHtml) signal onUpdate = browser_debug_execute d includeHtml signal onUpdate"

fun run :: "driver \<Rightarrow> (action \<times> abort_signal \<times> bool) list \<Rightarrow> world \<Rightarrow> world" where
  "run d [] w = w"
| "run d ((a, signal, onUpdate) # rest) w = run d rest (snd (execute d a signal onUpdate w))"


section \<open>Observing a run\<close>

text \<open>
  What a step did is read off the trace: \<open>added w w'\<close> are the events recorded between
  the worlds \<open>w\<close> and \<open>w'\<close>.  \<open>acquisitions\<close> is the acquisition count: the launches that
  returned a browser.
\<close>

definition added :: "world \<Rightarrow> world \<Rightarrow> event list" where
  "added w w' = drop (length (trace w)) (trace w')"

definition progress :: "bool \<Rightarrow> string \<Rightarrow> event list" where
  \<comment> \<open>what a progress notification records\<close>
  "progress onUpdate msg = (if onUpdate then [(OnUpdate msg, Returned)] else [])"

definition acquires :: "call \<Rightarrow> bool" where
  \<comment> \<open>a browser launch or a page creation\<close>
  "acquires c = (case c of Launch _ _ \<Rightarrow> True | NewPage _ \<Rightarrow> True | _ \<Rightarrow> False)"

definition setup_call :: "call \<Rightarrow> bool" where
  \<comment> \<open>a call of the acquisition sequence\<close>
  "setup_call c =
     (case c of
        Launch _ _ \<Rightarrow> True
      | NewPage _ \<Rightarrow> True
      | SetViewport _ _ _ \<Rightarrow> True
      | SetUserAgent _ _ \<Rightarrow> True
      | _ \<Rightarrow> False)"

definition launched :: "event \<Rightarrow> bool" where
  "launched ev = (case ev of (Launch _ _, Gave_handle _) \<Rightarrow> True | _ \<Rightarrow> False)"

definition acquisitions :: "event list \<Rightarrow> nat" where
  "acquisitions tr = length (filter launched tr)"

definition clicks :: "call \<Rightarrow> bool" where
  \<comment> \<open>a click interaction: the click, or the wait for the navigation it starts\<close>
  "clicks c = (case c of Click _ _ \<Rightarrow> True | WaitForNavigation _ _ \<Rightarrow> True | _ \<Rightarrow> False)"

definition extracted_text :: "event \<Rightarrow> string option" where
  \<comment> \<open>the text a text extraction of \<open>browser_get_text\<close> returned\<close>
  "extracted_text ev =
     (case ev of
        (ElementText _, Gave_text t) \<Rightarrow> Some t
      | (BodyInnerText _, Gave_text t) \<Rightarrow> Some t
      | _ \<Rightarrow> None)"

definition extractions :: "event list \<Rightarrow> string list" where
  "extractions new = List.map_filter extracted_text new"



text \<open>Two properties of steps that compose along \<open>await\<close>; they carry the proofs below.\<close>

definition page_only :: "'a step \<Rightarrow> bool" where
  \<comment> \<open>the step keeps both handles and neither launches a browser nor opens a page\<close>
  "page_only m \<longleftrightarrow>
     (\<forall>w. browser (snd (m w)) = browser w \<and> page (snd (m w)) = page w \<and>
          (\<exists>new. trace (snd (m w)) = trace w @ new \<and> (\<forall>ev \<in> set new. \<not> acquires (fst ev))))"



section \<open>Sample drivers and sessions\<close>

text \<open>
  \<open>steady\<close> is a driver on which every call returns: Chromium is installed at
  \<open>/usr/bin/chromium\<close>, every selector matches element 7, and the page is the example
  domain with the body text \<open>hello world\<close>.  The other drivers differ from it in one
  answer.  \<open>ready\<close> is a session that holds browser 1 and page 2.
\<close>

definition steady :: driver where
  "steady =
     \<lparr>accessSync = (\<lambda>p. p = ''/usr/bin/chromium''),
      fails = (\<lambda>_ _. None),
      handle_of = (\<lambda>past _. Suc (length past)),
      element_of = (\<lambda>_ _. Some 7),
      text_of = (\<lambda>_ c. case c of
                          Url _ \<Rightarrow> ''https://example.com/''
                        | Title _ \<Rightarrow> ''Example Domain''
                        | _ \<Rightarrow> ''hello world''),
      number_of = (\<lambda>_ _. 0),
      nav_rejects_first = (\<lambda>_. True)\<rparr>"

definition no_match :: driver where
  \<comment> \<open>no selector matches\<close>
  "no_match = steady\<lparr>element_of := (\<lambda>_ _. None)\<rparr>"

definition no_browser :: driver where
  \<comment> \<open>no browser is installed\<close>
  "no_browser = steady\<lparr>accessSync := (\<lambda>_. False)\<rparr>"

definition page_fails :: driver where
  "page_fails =
     steady\<lparr>fails := (\<lambda>_ c. case c of
                              NewPage _ \<Rightarrow> Some (ProtocolError ''Target closed'')
                            | _ \<Rightarrow> None)\<rparr>"


definition close_fails :: driver where
  "close_fails =
     steady\<lparr>fails := (\<lambda>_ c. case c of
                              CloseBrowser _ \<Rightarrow> Some (ProtocolError ''Target closed'')
                            | _ \<Rightarrow> None)\<rparr>"

definition ready :: world where
  "ready = \<lparr>browser = Some 1, page = Some 2, trace = []\<rparr>"


definition stuck :: world where
  \<comment> \<open>the session \<open>page_fails\<close> leaves behind: a browser and no page\<close>
  "stuck =
     \<lparr>browser = Some 1, page = None,
      trace = [(Launch ''/usr/bin/chromium'' launch_args, Gave_handle 1),
               (NewPage 1, Threw (ProtocolError ''Target closed''))]\<rparr>"

definition raised :: abort_signal where
  \<comment> \<open>the signal is raised throughout\<close>
  "raised = (\<lambda>_. True)"

definition quiet :: abort_signal where
  \<comment> \<open>the signal is never raised\<close>
  "quiet = (\<lambda>_. False)"


section \<open>Properties of steps\<close>

lemmas step_defs = await_def resolve_def throw_def invoke_def call_unit_def call_handle_def
  call_element_def call_text_def call_number_def notify_def deref_def find_element_def
  set_browser_def set_page_def promise_all_def Let_def




lemma getPage_trace:
  "\<exists>new. trace (snd (getPage d w)) = trace w @ new \<and> (\<forall>ev \<in> set new. setup_call (fst ev))"
  by (cases "browser w = None")
     (auto simp: getPage_def step_defs setup_call_def split: sum.splits option.splits)

subsection \<open>Steps that only use the page\<close>

lemma page_only_resolve: "page_only (resolve x)"
  by (simp add: page_only_def resolve_def)

lemma page_only_throw: "page_only (throw e)"
  by (simp add: page_only_def throw_def)

lemma page_only_await:
  assumes "page_only m" and "\<And>x. page_only (f x)"
  shows "page_only (await m f)"
  unfolding page_only_def
proof (intro allI)
  fix w
  obtain r w1 where m: "m w = (r, w1)" by (cases "m w")
  from assms(1) m obtain n1 where 1: "browser w1 = browser w" "page w1 = page w"
      "trace w1 = trace w @ n1" "\<forall>ev \<in> set n1. \<not> acquires (fst ev)"
    by (fastforce simp: page_only_def dest: spec[of _ w])
  show "browser (snd (await m f w)) = browser w \<and> page (snd (await m f w)) = page w \<and>
        (\<exists>new. trace (snd (await m f w)) = trace w @ new \<and> (\<forall>ev \<in> set new. \<not> acquires (fst ev)))"
  proof (cases r)
    case (Inl e)
    with m 1 show ?thesis by (simp add: await_def)
  next
    case (Inr x)
    from assms(2)[of x] obtain n2 where 2: "browser (snd (f x w1)) = browser w1"
        "page (snd (f x w1)) = page w1" "trace (snd (f x w1)) = trace w1 @ n2"
        "\<forall>ev \<in> set n2. \<not> acquires (fst ev)"
      by (fastforce simp: page_only_def dest: spec[of _ w1])
    from m Inr have "await m f w = f x w1" by (simp add: await_def)
    with 1 2 show ?thesis by auto
  qed
qed

lemma page_only_invoke: "\<not> acquires c \<Longrightarrow> page_only (invoke d answer tag c)"
  by (auto simp: page_only_def invoke_def Let_def split: option.splits)

lemma page_only_calls:
  assumes "\<not> acquires c"
  shows "page_only (call_unit d c)" "page_only (call_text d c)" "page_only (call_number d c)"
    "page_only (call_element d c)" "page_only (call_handle d c)"
  using assms by (simp_all add: call_unit_def call_text_def call_number_def call_element_def call_handle_def page_only_invoke)

lemma page_only_promise_all: "\<not> acquires a \<Longrightarrow> \<not> acquires b \<Longrightarrow> page_only (promise_all d a b)"
  by (auto simp: page_only_def promise_all_def Let_def split: option.splits)

lemma page_only_notify: "page_only (notify u msg)"
  by (simp add: page_only_def notify_def acquires_def)

lemma page_only_deref: "page_only (deref p m)"
  by (cases p) (simp_all add: deref_def page_only_resolve page_only_throw)

lemma page_only_find_element: "page_only (find_element d h s)"
  unfolding find_element_def
  by (intro page_only_await page_only_calls) (auto simp: acquires_def page_only_resolve page_only_throw split: option.splits)

lemma page_only_if: "(c \<Longrightarrow> page_only a) \<Longrightarrow> (\<not> c \<Longrightarrow> page_only b) \<Longrightarrow> page_only (if c then a else b)"
  by simp

lemma page_only_case_option: "(x = None \<Longrightarrow> page_only a) \<Longrightarrow> (\<And>y. x = Some y \<Longrightarrow> page_only (b y)) \<Longrightarrow> page_only (case x of None \<Rightarrow> a | Some y \<Rightarrow> b y)"
  by (cases x) simp_all

lemmas page_only_intros = page_only_resolve page_only_throw page_only_await page_only_calls
  page_only_promise_all page_only_notify page_only_deref page_only_find_element page_only_if
  page_only_case_option

lemma execute_shape:
  "\<exists>f. execute d a s u = await (getPage d) f \<and> (\<forall>p. page_only (f p))"
proof (cases a)
  case (Navigate url wfl)
  show ?thesis unfolding Navigate execute.simps browser_navigate_execute_def
    by (rule exI, rule conjI, rule refl) (intro allI page_only_intros; simp add: acquires_def)
next
  case (Screenshot fp sel)
  show ?thesis unfolding Screenshot execute.simps browser_screenshot_execute_def
    by (rule exI, rule conjI, rule refl) (intro allI page_only_intros; simp add: acquires_def)
next
  case (ClickOn sel wfn)
  show ?thesis unfolding ClickOn execute.simps browser_click_execute_def
    by (rule exI, rule conjI, rule refl) (intro allI page_only_intros; simp add: acquires_def)
next
  case (TypeInto sel t cf pe)
  show ?thesis unfolding TypeInto execute.simps browser_type_execute_def
    by (rule exI, rule conjI, rule refl) (intro allI page_only_intros; simp add: acquires_def)
next
  case (GetText sel ml)
  show ?thesis unfolding GetText execute.simps browser_get_text_execute_def Let_def
    by (rule exI, rule conjI, rule refl) (intro allI page_only_intros; simp add: acquires_def)
next
  case (Scroll dir am)
  show ?thesis unfolding Scroll execute.simps browser_scroll_execute_def Let_def
    by (rule exI, rule conjI, rule refl) (intro allI page_only_intros; simp add: acquires_def)
next
  case (WaitFor sel t)
  show ?thesis unfolding WaitFor execute.simps browser_wait_for_execute_def
    by (rule exI, rule conjI, rule refl) (intro allI page_only_intros; simp add: acquires_def)
next
  case (DebugCapture ih)
  show ?thesis unfolding DebugCapture execute.simps browser_debug_execute_def Let_def
    by (rule exI, rule conjI, rule refl) (intro allI page_only_intros; simp add: acquires_def)
qed

subsection \<open>The session invariant\<close>

text \<open>
  A page is held only with a browser: true of the initial session, and kept by every
  action, by the close tool and by the shutdown handler.
\<close>

lemma initial_invariant: "browser initial = None \<longrightarrow> page initial = None"
  by (simp add: initial_def)

lemma getPage_invariant:
  "browser w = None \<longrightarrow> page w = None \<Longrightarrow>
   browser (snd (getPage d w)) = None \<longrightarrow> page (snd (getPage d w)) = None"
  by (cases "browser w = None")
     (auto simp: getPage_def step_defs split: sum.splits option.splits)

lemma execute_invariant:
  assumes "browser w = None \<longrightarrow> page w = None"
  shows "browser (snd (execute d a s u w)) = None \<longrightarrow> page (snd (execute d a s u w)) = None"
proof -
  obtain f where f: "execute d a s u = await (getPage d) f" "\<And>p. page_only (f p)"
    using execute_shape by blast
  obtain r w1 where g: "getPage d w = (r, w1)" by (cases "getPage d w")
  from getPage_invariant[OF assms, of d] g have 1: "browser w1 = None \<longrightarrow> page w1 = None" by simp
  show ?thesis
  proof (cases r)
    case (Inl e)
    with g 1 show ?thesis by (simp add: f(1) await_def)
  next
    case (Inr p)
    with g have "execute d a s u w = f p w1" by (simp add: f(1) await_def)
    with f(2)[of p] 1 show ?thesis by (simp add: page_only_def)
  qed
qed

lemma close_invariant:
  "browser w = None \<longrightarrow> page w = None \<Longrightarrow>
   browser (snd (browser_close_execute d w)) = None \<longrightarrow> page (snd (browser_close_execute d w)) = None"
  by (cases "browser w") (auto simp: browser_close_execute_def step_defs split: option.splits)

lemma shutdown_invariant:
  "browser w = None \<longrightarrow> page w = None \<Longrightarrow>
   fst (session_shutdown d w) = Inr () \<and>
   browser (snd (session_shutdown d w)) = None \<and> page (snd (session_shutdown d w)) = None"
  by (cases "browser w")
     (auto simp: session_shutdown_def swallow_def step_defs split: option.splits prod.splits)

subsection \<open>Counting acquisitions\<close>









subsection \<open>Failures are raised\<close>











lemma probe_error: "probe x ps = Inl e \<Longrightarrow> e = chrome_not_found"
  by (induction ps) (auto split: if_splits)








subsection \<open>The locator\<close>

lemma probe_skip: "\<forall>q \<in> set pre. \<not> x q \<Longrightarrow> probe x (pre @ rest) = probe x rest"
  by (induction pre) simp_all

lemma probe_found:
  "probe x ps = Inr p \<longleftrightarrow> (\<exists>pre post. ps = pre @ p # post \<and> x p \<and> (\<forall>q \<in> set pre. \<not> x q))"
proof
  show "probe x ps = Inr p \<Longrightarrow> \<exists>pre post. ps = pre @ p # post \<and> x p \<and> (\<forall>q \<in> set pre. \<not> x q)"
  proof (induction ps)
    case Nil
    then show ?case by simp
  next
    case (Cons a ps)
    show ?case
    proof (cases "x a")
      case True
      with Cons.prems have "a = p" by simp
      with True have "a # ps = [] @ p # ps \<and> x p \<and> (\<forall>q \<in> set []. \<not> x q)" by simp
      then show ?thesis by blast
    next
      case False
      with Cons.prems have "probe x ps = Inr p" by simp
      from Cons.IH[OF this] obtain pre post where "ps = pre @ p # post" "x p" "\<forall>q \<in> set pre. \<not> x q"
        by blast
      with False have "a # ps = (a # pre) @ p # post \<and> x p \<and> (\<forall>q \<in> set (a # pre). \<not> x q)" by simp
      then show ?thesis by blast
    qed
  qed
next
  assume "\<exists>pre post. ps = pre @ p # post \<and> x p \<and> (\<forall>q \<in> set pre. \<not> x q)"
  then obtain pre post where "ps = pre @ p # post" "x p" "\<forall>q \<in> set pre. \<not> x q" by blast
  then show "probe x ps = Inr p" by (simp add: probe_skip)
qed

lemma probe_none: "probe x ps = Inl e \<longleftrightarrow> (\<forall>q \<in> set ps. \<not> x q) \<and> e = chrome_not_found"
  by (induction ps) auto

subsection \<open>The click\<close>

lemma clicks_setup: "setup_call c \<Longrightarrow> \<not> clicks c"
  by (cases c) (simp_all add: setup_call_def clicks_def)

lemma setup_no_click: "\<forall>ev \<in> set new. setup_call (fst ev) \<Longrightarrow> \<forall>ev \<in> set new. \<not> clicks (fst ev)"
  using clicks_setup by blast

lemma click_body:
  assumes "browser_click_execute d selector waitForNavigation signal onUpdate w = (r, w')"
  shows "\<exists>r1 w1 n2. getPage d w = (r1, w1) \<and> trace w' = trace w1 @ n2 \<and>
           (\<forall>h. (Query h selector, Gave_element None) \<in> set n2 \<longrightarrow>
              r = Inl (Error (''Element not found: '' @ selector)) \<and>
              (\<forall>ev \<in> set n2. \<not> clicks (fst ev)) \<and>
              last n2 = (Query h selector, Gave_element None)) \<and>
           ((\<exists>ev \<in> set n2. clicks (fst ev)) \<longrightarrow>
              (\<exists>h el. (Query h selector, Gave_element (Some el)) \<in> set (takeWhile (\<lambda>ev. \<not> clicks (fst ev)) n2)))"
  using assms
  by (auto simp: browser_click_execute_def step_defs clicks_def
      split: prod.splits sum.splits option.splits if_splits)

lemma notify_progress: "notify u msg w = (Inr (), w\<lparr>trace := trace w @ progress u msg\<rparr>)"
  by (simp add: notify_def progress_def)

lemma find_element_result:
  "fails d (trace w) (Query h s) = None \<Longrightarrow>
   find_element d h s w =
     (case element_of d (trace w) (Query h s) of
        None \<Rightarrow> (Inl (Error (''Element not found: '' @ s)),
                 w\<lparr>trace := trace w @ [(Query h s, Gave_element None)]\<rparr>)
      | Some el \<Rightarrow> (Inr el, w\<lparr>trace := trace w @ [(Query h s, Gave_element (Some el))]\<rparr>))"
  by (simp add: find_element_def await_def call_element_def invoke_def resolve_def throw_def
        Let_def
      split: option.splits)

lemma promise_all_world:
  "snd (promise_all d a b w) =
     w\<lparr>trace := trace w @
        [(a, case fails d (trace w) a of Some e \<Rightarrow> Threw e | None \<Rightarrow> Returned),
         (b, case fails d (trace w @ [(a, case fails d (trace w) a of Some e \<Rightarrow> Threw e | None \<Rightarrow> Returned)]) b of
               Some e \<Rightarrow> Threw e | None \<Rightarrow> Returned)]\<rparr>"
  by (simp add: promise_all_def Let_def split: option.splits)

lemma call_unit_world:
  "snd (call_unit d c w) =
     w\<lparr>trace := trace w @ [(c, case fails d (trace w) c of Some e \<Rightarrow> Threw e | None \<Rightarrow> Returned)]\<rparr>"
  by (simp add: call_unit_def invoke_def Let_def split: option.splits)

lemma click_step:
  "\<exists>ev rest.
     snd ((if c then promise_all d (WaitForNavigation h n) (Click h s) else call_unit d (Click h s)) w) =
       w\<lparr>trace := trace w @ ev # rest\<rparr> \<and> clicks (fst ev)"
proof (cases c)
  case True
  have "clicks (WaitForNavigation h n)" by (simp add: clicks_def)
  with True show ?thesis by (simp add: promise_all_world del: ex_simps) blast
next
  case False
  have "clicks (Click h s)" by (simp add: clicks_def)
  with False show ?thesis by (simp add: call_unit_world del: ex_simps) blast
qed

lemma page_only_trace: "page_only m \<Longrightarrow> \<exists>new. trace (snd (m w)) = trace w @ new"
  by (auto simp: page_only_def)

lemma await_first_event:
  assumes "trace (snd (m w)) = trace w @ ev # rest" and "\<And>x. page_only (f x)"
  shows "\<exists>tail. trace (snd (await m f w)) = trace w @ ev # tail"
proof -
  obtain r w2 where m: "m w = (r, w2)" by (cases "m w")
  with assms(1) have w2: "trace w2 = trace w @ ev # rest" by simp
  show ?thesis
  proof (cases r)
    case (Inl e)
    with m w2 show ?thesis by (simp add: await_def)
  next
    case (Inr x)
    from page_only_trace[OF assms(2), of x w2] obtain more where
      "trace (snd (f x w2)) = trace w2 @ more" by blast
    with m Inr w2 show ?thesis by (simp add: await_def)
  qed
qed

lemma click_absent:
  assumes g: "getPage d w = (Inr (Some h), w1)"
    and ok: "fails d (trace w1 @ progress onUpdate (''Clicking: '' @ selector @ ''...'')) (Query h selector) = None"
    and none: "element_of d (trace w1 @ progress onUpdate (''Clicking: '' @ selector @ ''...'')) (Query h selector) = None"
  shows "browser_click_execute d selector waitForNavigation signal onUpdate w =
             (Inl (Error (''Element not found: '' @ selector)),
              w1\<lparr>trace := trace w1 @ progress onUpdate (''Clicking: '' @ selector @ ''...'') @
                               [(Query h selector, Gave_element None)]\<rparr>)"
  using g ok none
  by (simp add: browser_click_execute_def await_def notify_progress deref_def resolve_def
        find_element_result)

lemma click_present:
  assumes g: "getPage d w = (Inr (Some h), w1)"
    and ok: "fails d (trace w1 @ progress onUpdate (''Clicking: '' @ selector @ ''...'')) (Query h selector) = None"
    and some: "element_of d (trace w1 @ progress onUpdate (''Clicking: '' @ selector @ ''...'')) (Query h selector) = Some el"
  shows "\<exists>ev rest. clicks (fst ev) \<and>
              added w1 (snd (browser_click_execute d selector waitForNavigation signal onUpdate w)) =
                progress onUpdate (''Clicking: '' @ selector @ ''...'') @
                [(Query h selector, Gave_element (Some el)), ev] @ rest"
proof -
  let ?notes = "progress onUpdate (''Clicking: '' @ selector @ ''...'')"
  let ?w3 = "w1\<lparr>trace := trace w1 @ ?notes @ [(Query h selector, Gave_element (Some el))]\<rparr>"
  let ?step = "if truthy waitForNavigation
            then promise_all d (WaitForNavigation h ''networkidle0'') (Click h selector)
            else call_unit d (Click h selector)"
  let ?rest = "\<lambda>_::unit. await (call_text d (Url h)) (\<lambda>u1.
     await (call_text d (Url h)) (\<lambda>u2.
     resolve \<lparr>content = [Text (tick @ '' Clicked: '' @ selector), Text (''Current URL: '' @ u1)],
              details = [(''selector'', JStr selector), (''url'', JStr u2)]\<rparr>))"
  have run: "browser_click_execute d selector waitForNavigation signal onUpdate w = await ?step ?rest ?w3"
    using g ok some
    by (simp add: browser_click_execute_def await_def notify_progress deref_def resolve_def
          find_element_result)
  from click_step[of "truthy waitForNavigation" d h "''networkidle0''" selector ?w3]
  obtain ev rest where st: "snd (?step ?w3) = ?w3\<lparr>trace := trace ?w3 @ ev # rest\<rparr>" and c: "clicks (fst ev)"
    by blast
  from st have tr: "trace (snd (?step ?w3)) = trace ?w3 @ ev # rest" by simp
  have po: "\<And>x. page_only (?rest x)"
    by (intro page_only_intros; simp add: acquires_def)
  from await_first_event[of ?step ?w3 ev rest ?rest, OF tr po]
  obtain tail where "trace (snd (await ?step ?rest ?w3)) = trace ?w3 @ ev # tail" by blast
  with run have "added w1 (snd (browser_click_execute d selector waitForNavigation signal onUpdate w)) =
      ?notes @ [(Query h selector, Gave_element (Some el)), ev] @ tail"
    by (simp add: added_def)
  with c show ?thesis by blast
qed

subsection \<open>The scroll\<close>

lemma scroll_by_first:
  assumes g: "getPage d w = (Inr (Some h), w1)"
    and dir: "direction = ''down'' \<or> direction = ''up''"
  shows "\<exists>reply tail.
           added w1 (snd (browser_scroll_execute d direction amount w)) =
             (ScrollBy h (if direction = ''down'' then or_default amount 800 else - or_default amount 800), reply) # tail"
proof -
  let ?px = "if direction = ''down'' then or_default amount 800 else - or_default amount 800"
  let ?rest = "\<lambda>_::unit. await (deref (Some h) ''evaluate'') (\<lambda>h.
     await (call_number d (ScrollY h)) (\<lambda>scrollPos.
     resolve \<lparr>content =
                [Text (tick @ '' Scrolled '' @ direction @ '' (position: '' @ show_int scrollPos @ ''px)'')],
              details = [(''direction'', JStr direction), (''scrollPosition'', JNum scrollPos)]\<rparr>))"
  have run: "browser_scroll_execute d direction amount w = await (call_unit d (ScrollBy h ?px)) ?rest w1"
    using g dir
    by (auto simp: browser_scroll_execute_def await_def deref_def resolve_def Let_def)
  have po: "\<And>x. page_only (?rest x)"
    by (intro page_only_intros; simp add: acquires_def)
  have tr: "trace (snd (call_unit d (ScrollBy h ?px) w1)) =
      trace w1 @ (ScrollBy h ?px, case fails d (trace w1) (ScrollBy h ?px) of Some e \<Rightarrow> Threw e | None \<Rightarrow> Returned) # []"
    by (simp add: call_unit_world)
  from await_first_event[of "call_unit d (ScrollBy h ?px)" w1 _ "[]" ?rest, OF tr po]
  obtain tail where "trace (snd (await (call_unit d (ScrollBy h ?px)) ?rest w1)) =
      trace w1 @ (ScrollBy h ?px, case fails d (trace w1) (ScrollBy h ?px) of Some e \<Rightarrow> Threw e | None \<Rightarrow> Returned) # tail"
    by blast
  with run show ?thesis by (simp add: added_def)
qed

subsection \<open>Failures before the launch, and closes whose release returns\<close>

text \<open>
  When \<open>getPage\<close> fails before any launch has returned a browser, both handles stay
  \<open>null\<close>.  When the release of the held browser returns, two closes in a row return the
  confirmation and leave both handles \<open>null\<close>.
\<close>

lemma getPage_failure_before_launch:
  assumes "getPage d w = (Inl e, w')" and "browser w = None" and "page w = None"
    and "acquisitions (added w w') = 0"
  shows "browser w' = None \<and> page w' = None \<and>
         (e = chrome_not_found \<and> added w w' = [] \<or>
          (\<exists>path. added w w' = [(Launch path launch_args, Threw e)]))"
  using assms
  by (auto simp: getPage_def step_defs added_def acquisitions_def launched_def findChrome_def
      dest: probe_error split: sum.splits option.splits)

lemma close_twice_when_released:
  assumes "browser w = None \<longrightarrow> page w = None"
    and "\<forall>b. browser w = Some b \<longrightarrow> fails d (trace w) (CloseBrowser b) = None"
  shows "\<exists>w1. browser_close_execute d w = (Inr closed_envelope, w1) \<and>
              browser w1 = None \<and> page w1 = None \<and>
              (browser w = None \<longrightarrow> w1 = w) \<and>
              browser_close_execute d w1 = (Inr closed_envelope, w1)"
  using assms
  by (cases "browser w") (auto simp: browser_close_execute_def step_defs)

subsection \<open>Text extractions\<close>

lemma extractions_setup: "\<forall>ev \<in> set new. setup_call (fst ev) \<Longrightarrow> extractions new = []"
  by (induction new)
     (auto simp: extractions_def List.map_filter_simps extracted_text_def setup_call_def
           split: call.splits)

lemma extractions_append: "extractions (xs @ ys) = extractions xs @ extractions ys"
  by (simp add: extractions_def List.map_filter_def)

lemma get_text_body:
  assumes "browser_get_text_execute d selector maxLength w = (Inr env, w')"
  shows "\<exists>p w1 t u n2. getPage d w = (Inr p, w1) \<and> trace w' = trace w1 @ n2 \<and> extractions n2 = [t] \<and>
           env = \<lparr>content = [Text (if int (length t) > or_default maxLength 10000
                                   then slice0 t (or_default maxLength 10000) @ truncation_marker else t)],
                  details = [(''length'', JNum (int (length t))),
                             (''truncated'', JBool (int (length t) > or_default maxLength 10000)),
                             (''url'', JStr u)]\<rparr>"
  using assms
  by (auto simp: browser_get_text_execute_def step_defs extractions_def List.map_filter_simps
        extracted_text_def
      split: prod.splits sum.splits option.splits if_splits)

lemma get_text_whole_document:
  assumes "getPage d w = (Inr (Some h), w1)"
    and "fails d (trace w1) (BodyInnerText h) = None"
    and "text_of d (trace w1) (BodyInnerText h) = t"
    and "fails d (trace w1 @ [(BodyInnerText h, Gave_text t)]) (Url h) = None"
    and "text_of d (trace w1 @ [(BodyInnerText h, Gave_text t)]) (Url h) = u"
  shows "browser_get_text_execute d None maxLength w =
     (Inr \<lparr>content = [Text (if int (length t) > or_default maxLength 10000
                              then slice0 t (or_default maxLength 10000) @ truncation_marker else t)],
           details = [(''length'', JNum (int (length t))),
                      (''truncated'', JBool (int (length t) > or_default maxLength 10000)),
                      (''url'', JStr u)]\<rparr>,
      w1\<lparr>trace := trace w1 @ [(BodyInnerText h, Gave_text t), (Url h, Gave_text u)]\<rparr>)"
  using assms
  by (simp add: browser_get_text_execute_def await_def given_def deref_def resolve_def
        call_text_def invoke_def Let_def)


section \<open>The claims\<close>






text \<open>
  C2: after any failure of the acquisition sequence, whatever was acquired has been
  released and both handles are \<open>null\<close>, so that a later action retries from scratch.
  \<open>getPage\<close> does not do this when opening the page fails.  On the initial session,
  with a driver whose \<open>newPage\<close> rejects, the launched browser is not closed and its
  handle stays in \<open>browser\<close>, with \<open>page\<close> still \<open>null\<close>.  From that session on,
  \<open>getPage\<close> skips the acquisition and returns the \<open>null\<close> page, also on a driver on
  which every call would return, and a navigation throws the runtime's \<open>TypeError\<close>.
\<close>

theorem acquisition_failure_leaks_browser:
  "getPage page_fails initial = (Inl (ProtocolError ''Target closed''), stuck) \<and>
   getPage page_fails stuck = (Inr None, stuck) \<and>
   getPage steady stuck = (Inr None, stuck) \<and>
   execute steady (Navigate ''https://example.com/'' None) quiet False stuck =
     (Inl (TypeError (''Cannot read properties of null (reading '' @ quote @ ''goto'' @ quote @ '')'')),
      stuck)"
  by (simp add: browser_navigate_execute_def getPage_def step_defs steady_def page_fails_def
        initial_def stuck_def findChrome_def chrome_paths_def)





text \<open>
  C4 (as stated): when the cancellation signal is raised while an action is in flight,
  the action fails with \<open>Cancelled\<close>.  This fails: with the signal raised throughout, a
  navigation makes all its driver calls and returns its envelope.
\<close>

theorem cancellation_counterexample:
  "execute steady (Navigate ''https://example.com/'' (Some True)) raised False ready =
     (Inr \<lparr>content = [Text (tick @ '' Loaded: Example Domain''), Text ''URL: https://example.com/''],
           details = [(''title'', JStr ''Example Domain''), (''url'', JStr ''https://example.com/'')]\<rparr>,
      ready\<lparr>trace := [(Goto 2 ''https://example.com/'' ''networkidle0'', Returned),
                      (Title 2, Gave_text ''Example Domain''),
                      (Url 2, Gave_text ''https://example.com/'')]\<rparr>)"
  by (simp add: browser_navigate_execute_def getPage_def step_defs steady_def ready_def truthy_def)

text \<open>
  C4 (amended): every action accepts the cancellation signal and never reads it: what the
  action returns or throws, and every driver call it makes, are the same whatever the
  signal is.
\<close>

theorem signal_is_ignored:
  "execute d a signal onUpdate w = execute d a signal' onUpdate w"
  by (cases a)
     (simp_all add: browser_navigate_execute_def browser_screenshot_execute_def
        browser_click_execute_def browser_type_execute_def browser_wait_for_execute_def
        browser_debug_execute_def)

text \<open>An instance: a navigation with the signal raised throughout, and with it never raised.\<close>

theorem signal_is_ignored_witness:
  "execute steady (Navigate ''https://example.com/'' (Some True)) raised False ready =
   execute steady (Navigate ''https://example.com/'' (Some True)) quiet False ready"
  using signal_is_ignored[of steady "Navigate ''https://example.com/'' (Some True)" raised False ready quiet]
  by simp


text \<open>
  C5 (as stated): whenever the extracted text is longer than \<open>maxLength = m\<close>,
  \<open>browser_get_text\<close> returns its first \<open>m\<close> characters followed by the truncation marker
  and reports \<open>truncated = true\<close>.  This fails at \<open>m = 0\<close>: on the eleven characters of
  \<open>hello world\<close> the tool returns the whole text and reports \<open>truncated = false\<close>, because
  a zero \<open>maxLength\<close> is replaced by the default cap.
\<close>

theorem get_text_zero_cap_counterexample:
  "browser_get_text_execute steady None (Some 0) ready =
     (Inr \<lparr>content = [Text ''hello world''],
           details = [(''length'', JNum 11), (''truncated'', JBool False),
                      (''url'', JStr ''https://example.com/'')]\<rparr>,
      ready\<lparr>trace := [(BodyInnerText 2, Gave_text ''hello world''),
                      (Url 2, Gave_text ''https://example.com/'')]\<rparr>)"
  by (simp add: browser_get_text_execute_def getPage_def step_defs steady_def ready_def
        given_def or_default_def)

text \<open>
  C5 (amended): for every positive \<open>maxLength = m\<close>, when \<open>browser_get_text\<close> returns, it
  has extracted exactly one text \<open>t\<close>; the details report its untruncated length; if \<open>t\<close>
  is longer than \<open>m\<close> the content is the first \<open>m\<close> characters of \<open>t\<close> followed by the
  truncation marker and \<open>truncated\<close> is true, otherwise the content is \<open>t\<close> unmodified and
  \<open>truncated\<close> is false.
\<close>

theorem get_text_truncation:
  assumes "browser_get_text_execute d selector (Some m) w = (Inr env, w')" and "0 < m"
  shows "\<exists>t. extractions (added w w') = [t] \<and>
           map_of (details env) ''length'' = Some (JNum (int (length t))) \<and>
           (if int (length t) > m
            then content env = [Text (take (nat m) t @ truncation_marker)] \<and>
                 map_of (details env) ''truncated'' = Some (JBool True)
            else content env = [Text t] \<and>
                 map_of (details env) ''truncated'' = Some (JBool False))"
proof -
  from get_text_body[OF assms(1)] obtain p w1 t u n2 where
    g: "getPage d w = (Inr p, w1)" and tr: "trace w' = trace w1 @ n2" and ex: "extractions n2 = [t]" and
    env: "env = \<lparr>content = [Text (if int (length t) > or_default (Some m) 10000
                                   then slice0 t (or_default (Some m) 10000) @ truncation_marker else t)],
                  details = [(''length'', JNum (int (length t))),
                             (''truncated'', JBool (int (length t) > or_default (Some m) 10000)),
                             (''url'', JStr u)]\<rparr>"
    by blast
  from getPage_trace[of d w] g obtain n1 where
    n1: "trace w1 = trace w @ n1" "\<forall>ev \<in> set n1. setup_call (fst ev)"
    by auto
  have "added w w' = n1 @ n2" using tr n1(1) by (simp add: added_def)
  then have "extractions (added w w') = [t]"
    using ex extractions_setup[OF n1(2)] by (simp add: extractions_append)
  moreover have "or_default (Some m) 10000 = m" using assms(2) by (simp add: or_default_def)
  ultimately show ?thesis using env assms(2) by (auto simp: slice0_def)
qed

text \<open>An instance: the eleven characters of \<open>hello world\<close> under a cap of 5.\<close>

theorem get_text_truncation_witness:
  "browser_get_text_execute steady None (Some 5) ready =
     (Inr \<lparr>content = [Text (''hello'' @ truncation_marker)],
           details = [(''length'', JNum 11), (''truncated'', JBool True),
                      (''url'', JStr ''https://example.com/'')]\<rparr>,
      ready\<lparr>trace := [(BodyInnerText 2, Gave_text ''hello world''),
                      (Url 2, Gave_text ''https://example.com/'')]\<rparr>) \<and>
   (0::int) < 5 \<and>
   (\<exists>t. extractions (added ready
            (ready\<lparr>trace := [(BodyInnerText 2, Gave_text ''hello world''),
                             (Url 2, Gave_text ''https://example.com/'')]\<rparr>)) = [t] \<and>
        map_of [(''length'', JNum 11), (''truncated'', JBool True),
                (''url'', JStr ''https://example.com/'')] ''length'' = Some (JNum (int (length t))) \<and>
        int (length t) > 5)"
proof -
  have run: "browser_get_text_execute steady None (Some 5) ready =
     (Inr \<lparr>content = [Text (''hello'' @ truncation_marker)],
           details = [(''length'', JNum 11), (''truncated'', JBool True),
                      (''url'', JStr ''https://example.com/'')]\<rparr>,
      ready\<lparr>trace := [(BodyInnerText 2, Gave_text ''hello world''),
                      (Url 2, Gave_text ''https://example.com/'')]\<rparr>)"
    by (simp add: browser_get_text_execute_def getPage_def step_defs steady_def ready_def
          given_def or_default_def slice0_def)
  have pos: "(0::int) < 5" by simp
  from get_text_truncation[OF run pos] obtain t where
    t: "extractions (added ready
            (ready\<lparr>trace := [(BodyInnerText 2, Gave_text ''hello world''),
                             (Url 2, Gave_text ''https://example.com/'')]\<rparr>)) = [t]"
       "map_of [(''length'', JNum 11), (''truncated'', JBool True),
                (''url'', JStr ''https://example.com/'')] ''length'' = Some (JNum (int (length t)))"
    by auto
  from t(2) have "int (length t) = 11" by simp
  with run t show ?thesis by auto
qed


text \<open>
  C6: a click on a selector absent from the page fails with the missing-element error
  before any click interaction.  Take any session and driver on which \<open>getPage\<close> returns
  a page, and on which the probe for the selector does not throw.  If the driver answers
  the probe with no element, \<open>browser_click\<close> throws \<open>Error\<close> with the message
  \<open>Element not found:\<close> and the selector; after the acquisition it has recorded the
  progress notification and the probe and nothing else, and the whole run records no
  click and no wait for a navigation.  If the driver answers with an element, the call
  recorded right after the probe is a click interaction.  And the probe always precedes
  the click: in every run that records a click interaction, a probe for the selector has
  found an element before the first of them.
\<close>

theorem click_absent_selector:
  "(getPage d w = (Inr (Some h), w1) \<and>
    fails d (trace w1 @ progress onUpdate (''Clicking: '' @ selector @ ''...'')) (Query h selector) = None \<and>
    element_of d (trace w1 @ progress onUpdate (''Clicking: '' @ selector @ ''...'')) (Query h selector) = None \<longrightarrow>
      browser_click_execute d selector waitForNavigation signal onUpdate w =
        (Inl (Error (''Element not found: '' @ selector)),
         w1\<lparr>trace := trace w1 @ progress onUpdate (''Clicking: '' @ selector @ ''...'') @
                          [(Query h selector, Gave_element None)]\<rparr>) \<and>
      (\<forall>ev \<in> set (added w (snd (browser_click_execute d selector waitForNavigation signal onUpdate w))).
         \<not> clicks (fst ev))) \<and>
   (getPage d w = (Inr (Some h), w1) \<and>
    fails d (trace w1 @ progress onUpdate (''Clicking: '' @ selector @ ''...'')) (Query h selector) = None \<and>
    element_of d (trace w1 @ progress onUpdate (''Clicking: '' @ selector @ ''...'')) (Query h selector) = Some el \<longrightarrow>
      (\<exists>ev rest. clicks (fst ev) \<and>
         added w1 (snd (browser_click_execute d selector waitForNavigation signal onUpdate w)) =
           progress onUpdate (''Clicking: '' @ selector @ ''...'') @
           [(Query h selector, Gave_element (Some el)), ev] @ rest)) \<and>
   (browser_click_execute d selector waitForNavigation signal onUpdate w = (r, w') \<and>
    (\<exists>ev \<in> set (added w w'). clicks (fst ev)) \<longrightarrow>
      (\<exists>h' el'. (Query h' selector, Gave_element (Some el')) \<in>
                  set (takeWhile (\<lambda>ev. \<not> clicks (fst ev)) (added w w'))))"
proof (intro conjI impI)
  assume a: "getPage d w = (Inr (Some h), w1) \<and>
    fails d (trace w1 @ progress onUpdate (''Clicking: '' @ selector @ ''...'')) (Query h selector) = None \<and>
    element_of d (trace w1 @ progress onUpdate (''Clicking: '' @ selector @ ''...'')) (Query h selector) = None"
  then have run: "browser_click_execute d selector waitForNavigation signal onUpdate w =
        (Inl (Error (''Element not found: '' @ selector)),
         w1\<lparr>trace := trace w1 @ progress onUpdate (''Clicking: '' @ selector @ ''...'') @
                          [(Query h selector, Gave_element None)]\<rparr>)"
    using click_absent by blast
  then show "browser_click_execute d selector waitForNavigation signal onUpdate w =
        (Inl (Error (''Element not found: '' @ selector)),
         w1\<lparr>trace := trace w1 @ progress onUpdate (''Clicking: '' @ selector @ ''...'') @
                          [(Query h selector, Gave_element None)]\<rparr>)" .
  from getPage_trace[of d w] a obtain n1 where
    n1: "trace w1 = trace w @ n1" "\<forall>ev \<in> set n1. setup_call (fst ev)"
    by auto
  from n1(2) have "\<forall>ev \<in> set n1. \<not> clicks (fst ev)" by (rule setup_no_click)
  then show "\<forall>ev \<in> set (added w (snd (browser_click_execute d selector waitForNavigation signal onUpdate w))).
         \<not> clicks (fst ev)"
    using n1(1) by (auto simp: run added_def progress_def clicks_def)
next
  assume "getPage d w = (Inr (Some h), w1) \<and>
    fails d (trace w1 @ progress onUpdate (''Clicking: '' @ selector @ ''...'')) (Query h selector) = None \<and>
    element_of d (trace w1 @ progress onUpdate (''Clicking: '' @ selector @ ''...'')) (Query h selector) = Some el"
  then show "\<exists>ev rest. clicks (fst ev) \<and>
         added w1 (snd (browser_click_execute d selector waitForNavigation signal onUpdate w)) =
           progress onUpdate (''Clicking: '' @ selector @ ''...'') @
           [(Query h selector, Gave_element (Some el)), ev] @ rest"
    using click_present by blast
next
  assume a: "browser_click_execute d selector waitForNavigation signal onUpdate w = (r, w') \<and>
    (\<exists>ev \<in> set (added w w'). clicks (fst ev))"
  from click_body[of d selector waitForNavigation signal onUpdate w r w'] a obtain r1 w1' n2 where
    g: "getPage d w = (r1, w1')" and tr: "trace w' = trace w1' @ n2" and
    guarded: "(\<exists>ev \<in> set n2. clicks (fst ev)) \<Longrightarrow>
              (\<exists>h el. (Query h selector, Gave_element (Some el)) \<in> set (takeWhile (\<lambda>ev. \<not> clicks (fst ev)) n2))"
    by blast
  from getPage_trace[of d w] g obtain n1 where
    n1: "trace w1' = trace w @ n1" "\<forall>ev \<in> set n1. setup_call (fst ev)"
    by auto
  have ad: "added w w' = n1 @ n2" using tr n1(1) by (simp add: added_def)
  have quiet1: "\<forall>ev \<in> set n1. \<not> clicks (fst ev)" using n1(2) by (rule setup_no_click)
  from a ad quiet1 have "\<exists>ev \<in> set n2. clicks (fst ev)" by auto
  from guarded[OF this] obtain h' el' where
    "(Query h' selector, Gave_element (Some el')) \<in> set (takeWhile (\<lambda>ev. \<not> clicks (fst ev)) n2)"
    by blast
  moreover have "takeWhile (\<lambda>ev. \<not> clicks (fst ev)) (n1 @ n2) = n1 @ takeWhile (\<lambda>ev. \<not> clicks (fst ev)) n2"
    using quiet1 by (simp add: takeWhile_append2)
  ultimately show "\<exists>h' el'. (Query h' selector, Gave_element (Some el')) \<in>
                  set (takeWhile (\<lambda>ev. \<not> clicks (fst ev)) (added w w'))"
    using ad by auto
qed

text \<open>
  An instance: on a ready session, a click on a selector that matches nothing, and a
  click on one that matches.
\<close>

theorem click_absent_selector_witness:
  "getPage no_match ready = (Inr (Some 2), ready) \<and>
   fails no_match (trace ready @ progress True ''Clicking: #go...'') (Query 2 ''#go'') = None \<and>
   element_of no_match (trace ready @ progress True ''Clicking: #go...'') (Query 2 ''#go'') = None \<and>
   browser_click_execute no_match ''#go'' None quiet True ready =
     (Inl (Error ''Element not found: #go''),
      ready\<lparr>trace := [(OnUpdate ''Clicking: #go...'', Returned),
                      (Query 2 ''#go'', Gave_element None)]\<rparr>) \<and>
   list_all (\<lambda>ev. \<not> clicks (fst ev))
     (added ready (snd (browser_click_execute no_match ''#go'' None quiet True ready))) \<and>
   getPage steady ready = (Inr (Some 2), ready) \<and>
   fails steady (trace ready @ progress False ''Clicking: #go...'') (Query 2 ''#go'') = None \<and>
   element_of steady (trace ready @ progress False ''Clicking: #go...'') (Query 2 ''#go'') = Some 7 \<and>
   (\<exists>ev rest. clicks (fst ev) \<and>
      added ready (snd (browser_click_execute steady ''#go'' None quiet False ready)) =
        (Query 2 ''#go'', Gave_element (Some 7)) # ev # rest) \<and>
   browser_click_execute steady ''#go'' None quiet False ready =
     (Inr \<lparr>content = [Text (tick @ '' Clicked: #go''), Text ''Current URL: https://example.com/''],
           details = [(''selector'', JStr ''#go''), (''url'', JStr ''https://example.com/'')]\<rparr>,
      ready\<lparr>trace := [(Query 2 ''#go'', Gave_element (Some 7)),
                      (Click 2 ''#go'', Returned),
                      (Url 2, Gave_text ''https://example.com/''),
                      (Url 2, Gave_text ''https://example.com/'')]\<rparr>) \<and>
   list_ex (\<lambda>ev. clicks (fst ev))
     (added ready
        (ready\<lparr>trace := [(Query 2 ''#go'', Gave_element (Some 7)),
                        (Click 2 ''#go'', Returned),
                        (Url 2, Gave_text ''https://example.com/''),
                        (Url 2, Gave_text ''https://example.com/'')]\<rparr>)) \<and>
   (\<exists>h el. (Query h ''#go'', Gave_element (Some el)) \<in>
      set (takeWhile (\<lambda>ev. \<not> clicks (fst ev))
        (added ready
           (ready\<lparr>trace := [(Query 2 ''#go'', Gave_element (Some 7)),
                           (Click 2 ''#go'', Returned),
                           (Url 2, Gave_text ''https://example.com/''),
                           (Url 2, Gave_text ''https://example.com/'')]\<rparr>))))"
proof -
  let ?w2 = "ready\<lparr>trace := [(Query 2 ''#go'', Gave_element (Some 7)),
                      (Click 2 ''#go'', Returned),
                      (Url 2, Gave_text ''https://example.com/''),
                      (Url 2, Gave_text ''https://example.com/'')]\<rparr>"
  have held1: "getPage no_match ready = (Inr (Some 2), ready)"
    and held2: "getPage steady ready = (Inr (Some 2), ready)"
    by (simp_all add: getPage_def ready_def)
  have ok1: "fails no_match (trace ready @ progress True (''Clicking: '' @ ''#go'' @ ''...'')) (Query 2 ''#go'') = None"
    and none: "element_of no_match (trace ready @ progress True (''Clicking: '' @ ''#go'' @ ''...'')) (Query 2 ''#go'') = None"
    by (simp_all add: no_match_def steady_def)
  have ok2: "fails steady (trace ready @ progress False (''Clicking: '' @ ''#go'' @ ''...'')) (Query 2 ''#go'') = None"
    and some: "element_of steady (trace ready @ progress False (''Clicking: '' @ ''#go'' @ ''...'')) (Query 2 ''#go'') = Some 7"
    by (simp_all add: steady_def)
  have present: "browser_click_execute steady ''#go'' None quiet False ready =
      (Inr \<lparr>content = [Text (tick @ '' Clicked: #go''), Text ''Current URL: https://example.com/''],
            details = [(''selector'', JStr ''#go''), (''url'', JStr ''https://example.com/'')]\<rparr>,
       ?w2)"
    by (simp add: browser_click_execute_def getPage_def step_defs steady_def ready_def truthy_def)
  have clicked: "\<exists>ev \<in> set (added ready ?w2). clicks (fst ev)"
    by (simp add: added_def ready_def clicks_def)
  note absent_case =
    click_absent_selector[where d = no_match and w = ready and h = 2 and ?w1.0 = ready
      and onUpdate = True and selector = "''#go''" and waitForNavigation = None and signal = quiet]
  note present_case =
    click_absent_selector[where d = steady and w = ready and h = 2 and ?w1.0 = ready
      and onUpdate = False and selector = "''#go''" and waitForNavigation = None and signal = quiet
      and el = 7 and r = "Inr \<lparr>content = [Text (tick @ '' Clicked: #go''), Text ''Current URL: https://example.com/''],
            details = [(''selector'', JStr ''#go''), (''url'', JStr ''https://example.com/'')]\<rparr>"
      and w' = ?w2]
  from absent_case held1 ok1 none
  have 1: "browser_click_execute no_match ''#go'' None quiet True ready =
        (Inl (Error (''Element not found: '' @ ''#go'')),
         ready\<lparr>trace := trace ready @ progress True (''Clicking: '' @ ''#go'' @ ''...'') @
                          [(Query 2 ''#go'', Gave_element None)]\<rparr>)"
    and 2: "\<forall>ev \<in> set (added ready (snd (browser_click_execute no_match ''#go'' None quiet True ready))).
         \<not> clicks (fst ev)"
    by blast+
  from present_case held2 ok2 some
  have 3: "\<exists>ev rest. clicks (fst ev) \<and>
         added ready (snd (browser_click_execute steady ''#go'' None quiet False ready)) =
           progress False (''Clicking: '' @ ''#go'' @ ''...'') @
           [(Query 2 ''#go'', Gave_element (Some 7)), ev] @ rest"
    by blast
  from present_case present clicked
  have 4: "\<exists>h' el'. (Query h' ''#go'', Gave_element (Some el')) \<in>
                  set (takeWhile (\<lambda>ev. \<not> clicks (fst ev)) (added ready ?w2))"
    by blast
  from 1 have c1: "browser_click_execute no_match ''#go'' None quiet True ready =
     (Inl (Error ''Element not found: #go''),
      ready\<lparr>trace := [(OnUpdate ''Clicking: #go...'', Returned),
                      (Query 2 ''#go'', Gave_element None)]\<rparr>)"
    by (simp add: progress_def ready_def)
  from 2 have c2: "list_all (\<lambda>ev. \<not> clicks (fst ev))
     (added ready (snd (browser_click_execute no_match ''#go'' None quiet True ready)))"
    by (simp add: list_all_iff)
  from 3 have c3: "\<exists>ev rest. clicks (fst ev) \<and>
      added ready (snd (browser_click_execute steady ''#go'' None quiet False ready)) =
        (Query 2 ''#go'', Gave_element (Some 7)) # ev # rest"
    by (simp add: progress_def)
  from clicked have 5: "list_ex (\<lambda>ev. clicks (fst ev)) (added ready ?w2)"
    by (simp add: list_ex_iff)
  from held1 held2 ok1 none ok2 some c1 c2 c3 present 4 5 show ?thesis by simp
qed


text \<open>
  C7: \<open>findChrome\<close> returns a path exactly when that path is the first of the fixed list
  \<open>chrome_paths\<close> that is executable (no path before it in the list is), and it fails
  exactly when no path of the list is executable, with the error whose message names the
  install command.
\<close>

theorem findChrome_first_executable:
  "(findChrome executable = Inr p \<longleftrightarrow>
      (\<exists>pre post. chrome_paths = pre @ p # post \<and> executable p \<and> (\<forall>q \<in> set pre. \<not> executable q))) \<and>
   (findChrome executable = Inl e \<longleftrightarrow>
      (\<forall>q \<in> set chrome_paths. \<not> executable q) \<and>
      e = Error ''Chrome/Chromium not found. Install with: sudo dnf install chromium'')"
  by (simp add: findChrome_def probe_found probe_none chrome_not_found_def)

text \<open>
  An instance: with the third and the fifth path executable the third is returned, and
  with none executable the locator fails.
\<close>

theorem findChrome_first_executable_witness:
  "findChrome (\<lambda>p. p = ''/usr/bin/google-chrome'' \<or> p = ''/usr/bin/chrome'') = Inr ''/usr/bin/google-chrome'' \<and>
   (\<exists>pre post. chrome_paths = pre @ ''/usr/bin/google-chrome'' # post \<and>
      list_all (\<lambda>q. \<not> (q = ''/usr/bin/google-chrome'' \<or> q = ''/usr/bin/chrome'')) pre) \<and>
   list_all (\<lambda>q. \<not> accessSync no_browser q) chrome_paths \<and>
   findChrome (accessSync no_browser) =
     Inl (Error ''Chrome/Chromium not found. Install with: sudo dnf install chromium'')"
proof -
  have found: "findChrome (\<lambda>p. p = ''/usr/bin/google-chrome'' \<or> p = ''/usr/bin/chrome'') = Inr ''/usr/bin/google-chrome''"
    by (simp add: findChrome_def chrome_paths_def)
  have none: "\<forall>q \<in> set chrome_paths. \<not> accessSync no_browser q"
    by (simp add: steady_def no_browser_def)
  from findChrome_first_executable[of "\<lambda>p. p = ''/usr/bin/google-chrome'' \<or> p = ''/usr/bin/chrome''" "''/usr/bin/google-chrome''"]
       findChrome_first_executable[of "accessSync no_browser" _ "Error ''Chrome/Chromium not found. Install with: sudo dnf install chromium''"]
       found none
  show ?thesis by (auto simp: list_all_iff)
qed


text \<open>
  C8: a failure of the browser release is swallowed by close, which still clears both
  handles and reports success.  The \<open>browser_close\<close> tool does not do this: on a session
  that holds browser 1 and page 2, with a driver whose \<open>browser.close()\<close> rejects, the
  tool throws the driver's error and leaves both handles set, while the
  \<open>session_shutdown\<close> handler, on the same input, swallows the error and clears both.
\<close>

theorem close_release_failure:
  "browser_close_execute close_fails ready =
     (Inl (ProtocolError ''Target closed''),
      \<lparr>browser = Some 1, page = Some 2,
       trace = [(CloseBrowser 1, Threw (ProtocolError ''Target closed''))]\<rparr>) \<and>
   session_shutdown close_fails ready =
     (Inr (),
      \<lparr>browser = None, page = None,
       trace = [(CloseBrowser 1, Threw (ProtocolError ''Target closed''))]\<rparr>)"
  by (simp add: browser_close_execute_def session_shutdown_def swallow_def step_defs steady_def
        close_fails_def ready_def)


text \<open>
  C9: close is idempotent: two closes in a row succeed both times and leave both handles
  \<open>null\<close>.  The \<open>browser_close\<close> tool does not do this when the release of the browser
  throws: on a session that holds browser 1 and page 2, with a driver whose
  \<open>browser.close()\<close> rejects, the first call throws the driver's error and leaves both
  handles set, and so does the second.
\<close>

theorem close_twice_release_failure:
  "browser_close_execute close_fails ready =
     (Inl (ProtocolError ''Target closed''),
      \<lparr>browser = Some 1, page = Some 2,
       trace = [(CloseBrowser 1, Threw (ProtocolError ''Target closed''))]\<rparr>) \<and>
   browser_close_execute close_fails
      \<lparr>browser = Some 1, page = Some 2,
       trace = [(CloseBrowser 1, Threw (ProtocolError ''Target closed''))]\<rparr> =
     (Inl (ProtocolError ''Target closed''),
      \<lparr>browser = Some 1, page = Some 2,
       trace = [(CloseBrowser 1, Threw (ProtocolError ''Target closed'')),
                (CloseBrowser 1, Threw (ProtocolError ''Target closed''))]\<rparr>)"
  by (simp add: browser_close_execute_def step_defs steady_def close_fails_def ready_def)


text \<open>
  C10 (as stated): a \<open>maxLength\<close> of 0 is replaced by the default 10000, so that no
  zero-character cap can be requested; and an \<open>amount\<close> of 0 scrolls by the default 800.
  The middle part fails: with \<open>maxLength = -11\<close> on the eleven characters of
  \<open>hello world\<close>, \<open>slice(0, -11)\<close> is empty, and the tool returns the truncation marker
  alone, with \<open>truncated = true\<close>.
\<close>

theorem zero_cap_by_negative_counterexample:
  "browser_get_text_execute steady None (Some (- 11)) ready =
     (Inr \<lparr>content = [Text truncation_marker],
           details = [(''length'', JNum 11), (''truncated'', JBool True),
                      (''url'', JStr ''https://example.com/'')]\<rparr>,
      ready\<lparr>trace := [(BodyInnerText 2, Gave_text ''hello world''),
                      (Url 2, Gave_text ''https://example.com/'')]\<rparr>)"
  by (simp add: browser_get_text_execute_def getPage_def step_defs steady_def ready_def
        given_def or_default_def slice0_def)

text \<open>
  C10 (amended): a \<open>maxLength\<close> of 0 is replaced by the default 10000.  When
  \<open>browser_get_text\<close> with \<open>maxLength = 0\<close> returns, it has extracted exactly one text;
  the text is cut only if it is longer than 10000 characters, then to its first 10000
  characters followed by the truncation marker, and is returned whole otherwise; and the
  tool with \<open>maxLength = 0\<close> is the tool with \<open>maxLength = 10000\<close>.  It does return
  when \<open>getPage\<close> returns a page, no selector is given and the driver returns the body
  text and the address: then the result is that envelope, exactly.  Likewise an
  \<open>amount\<close> of 0 is replaced by the default 800: on every session and driver on which
  \<open>getPage\<close> returns a page, the first call \<open>browser_scroll\<close> makes after the acquisition
  scrolls by 800 for \<open>down\<close> and by -800 for \<open>up\<close>; and the tool with \<open>amount = 0\<close> is
  the tool with \<open>amount = 800\<close>.
\<close>

theorem zero_is_default:
  "(browser_get_text_execute d selector (Some 0) w = (Inr env, w') \<longrightarrow>
      (\<exists>t. extractions (added w w') = [t] \<and>
           map_of (details env) ''length'' = Some (JNum (int (length t))) \<and>
           (if length t > 10000
            then content env = [Text (take 10000 t @ truncation_marker)] \<and>
                 map_of (details env) ''truncated'' = Some (JBool True)
            else content env = [Text t] \<and>
                 map_of (details env) ''truncated'' = Some (JBool False)))) \<and>
   (getPage d w = (Inr (Some h), w1) \<and>
    fails d (trace w1) (BodyInnerText h) = None \<and>
    text_of d (trace w1) (BodyInnerText h) = t \<and>
    fails d (trace w1 @ [(BodyInnerText h, Gave_text t)]) (Url h) = None \<longrightarrow>
      browser_get_text_execute d None (Some 0) w =
        (Inr \<lparr>content = [Text (if length t > 10000 then take 10000 t @ truncation_marker else t)],
              details = [(''length'', JNum (int (length t))),
                         (''truncated'', JBool (length t > 10000)),
                         (''url'', JStr (text_of d (trace w1 @ [(BodyInnerText h, Gave_text t)]) (Url h)))]\<rparr>,
         w1\<lparr>trace := trace w1 @
            [(BodyInnerText h, Gave_text t),
             (Url h, Gave_text (text_of d (trace w1 @ [(BodyInnerText h, Gave_text t)]) (Url h)))]\<rparr>)) \<and>
   browser_get_text_execute d selector (Some 0) = browser_get_text_execute d selector (Some 10000) \<and>
   (getPage d w = (Inr (Some h), w1) \<longrightarrow>
      (\<exists>reply tail. added w1 (snd (browser_scroll_execute d ''down'' (Some 0) w)) =
                       (ScrollBy h 800, reply) # tail) \<and>
      (\<exists>reply tail. added w1 (snd (browser_scroll_execute d ''up'' (Some 0) w)) =
                       (ScrollBy h (- 800), reply) # tail)) \<and>
   browser_scroll_execute d direction (Some 0) = browser_scroll_execute d direction (Some 800)"
proof (intro conjI impI)
  assume run: "browser_get_text_execute d selector (Some 0) w = (Inr env, w')"
  from get_text_body[OF run] obtain p w1 t u n2 where
    g: "getPage d w = (Inr p, w1)" and tr: "trace w' = trace w1 @ n2" and ex: "extractions n2 = [t]" and
    env: "env = \<lparr>content = [Text (if int (length t) > or_default (Some 0) 10000
                                   then slice0 t (or_default (Some 0) 10000) @ truncation_marker else t)],
                  details = [(''length'', JNum (int (length t))),
                             (''truncated'', JBool (int (length t) > or_default (Some 0) 10000)),
                             (''url'', JStr u)]\<rparr>"
    by blast
  from getPage_trace[of d w] g obtain n1 where
    n1: "trace w1 = trace w @ n1" "\<forall>ev \<in> set n1. setup_call (fst ev)"
    by auto
  have "added w w' = n1 @ n2" using tr n1(1) by (simp add: added_def)
  then have "extractions (added w w') = [t]"
    using ex extractions_setup[OF n1(2)] by (simp add: extractions_append)
  moreover have "or_default (Some 0) 10000 = 10000" by (simp add: or_default_def)
  ultimately show "\<exists>t. extractions (added w w') = [t] \<and>
           map_of (details env) ''length'' = Some (JNum (int (length t))) \<and>
           (if length t > 10000
            then content env = [Text (take 10000 t @ truncation_marker)] \<and>
                 map_of (details env) ''truncated'' = Some (JBool True)
            else content env = [Text t] \<and>
                 map_of (details env) ''truncated'' = Some (JBool False))"
    using env by (auto simp: slice0_def)
next
  assume a: "getPage d w = (Inr (Some h), w1) \<and>
    fails d (trace w1) (BodyInnerText h) = None \<and>
    text_of d (trace w1) (BodyInnerText h) = t \<and>
    fails d (trace w1 @ [(BodyInnerText h, Gave_text t)]) (Url h) = None"
  have "or_default (Some 0) 10000 = 10000" by (simp add: or_default_def)
  with get_text_whole_document[of d w h w1 t _ "Some 0"] a
  show "browser_get_text_execute d None (Some 0) w =
        (Inr \<lparr>content = [Text (if length t > 10000 then take 10000 t @ truncation_marker else t)],
              details = [(''length'', JNum (int (length t))),
                         (''truncated'', JBool (length t > 10000)),
                         (''url'', JStr (text_of d (trace w1 @ [(BodyInnerText h, Gave_text t)]) (Url h)))]\<rparr>,
         w1\<lparr>trace := trace w1 @
            [(BodyInnerText h, Gave_text t),
             (Url h, Gave_text (text_of d (trace w1 @ [(BodyInnerText h, Gave_text t)]) (Url h)))]\<rparr>)"
    by (simp add: slice0_def)
next
  show "browser_get_text_execute d selector (Some 0) = browser_get_text_execute d selector (Some 10000)"
    by (simp add: browser_get_text_execute_def or_default_def)
next
  assume g: "getPage d w = (Inr (Some h), w1)"
  from scroll_by_first[OF g, where direction = "''down''" and amount = "Some 0"]
  show "\<exists>reply tail. added w1 (snd (browser_scroll_execute d ''down'' (Some 0) w)) =
                       (ScrollBy h 800, reply) # tail"
    by (simp add: or_default_def)
  from scroll_by_first[OF g, where direction = "''up''" and amount = "Some 0"]
  show "\<exists>reply tail. added w1 (snd (browser_scroll_execute d ''up'' (Some 0) w)) =
                       (ScrollBy h (- 800), reply) # tail"
    by (simp add: or_default_def)
next
  show "browser_scroll_execute d direction (Some 0) = browser_scroll_execute d direction (Some 800)"
    by (simp add: browser_scroll_execute_def or_default_def)
qed

text \<open>An instance: both tools with a zero parameter, on a ready session.\<close>

theorem zero_is_default_witness:
  "browser_get_text_execute steady None (Some 0) ready =
     (Inr \<lparr>content = [Text ''hello world''],
           details = [(''length'', JNum 11), (''truncated'', JBool False),
                      (''url'', JStr ''https://example.com/'')]\<rparr>,
      ready\<lparr>trace := [(BodyInnerText 2, Gave_text ''hello world''),
                      (Url 2, Gave_text ''https://example.com/'')]\<rparr>) \<and>
   (\<exists>t. extractions (added ready
            (ready\<lparr>trace := [(BodyInnerText 2, Gave_text ''hello world''),
                             (Url 2, Gave_text ''https://example.com/'')]\<rparr>)) = [t] \<and>
        \<not> length t > 10000) \<and>
   getPage steady ready = (Inr (Some 2), ready) \<and>
   fails steady (trace ready) (BodyInnerText 2) = None \<and>
   text_of steady (trace ready) (BodyInnerText 2) = ''hello world'' \<and>
   fails steady (trace ready @ [(BodyInnerText 2, Gave_text ''hello world'')]) (Url 2) = None \<and>
   (\<exists>reply tail. added ready (snd (browser_scroll_execute steady ''down'' (Some 0) ready)) =
                    (ScrollBy 2 800, reply) # tail) \<and>
   (\<exists>reply tail. added ready (snd (browser_scroll_execute steady ''up'' (Some 0) ready)) =
                    (ScrollBy 2 (- 800), reply) # tail) \<and>
   added ready (snd (browser_scroll_execute steady ''down'' (Some 0) ready)) =
     [(ScrollBy 2 800, Returned), (ScrollY 2, Gave_number 0)]"
proof -
  let ?env = "\<lparr>content = [Text ''hello world''],
           details = [(''length'', JNum 11), (''truncated'', JBool False),
                      (''url'', JStr ''https://example.com/'')]\<rparr>"
  let ?w = "ready\<lparr>trace := [(BodyInnerText 2, Gave_text ''hello world''),
                      (Url 2, Gave_text ''https://example.com/'')]\<rparr>"
  have held: "getPage steady ready = (Inr (Some 2), ready)"
    by (simp add: getPage_def ready_def)
  have scrolled: "added ready (snd (browser_scroll_execute steady ''down'' (Some 0) ready)) =
     [(ScrollBy 2 800, Returned), (ScrollY 2, Gave_number 0)]"
    by (simp add: browser_scroll_execute_def getPage_def step_defs steady_def ready_def
          or_default_def added_def)
  have ok: "fails steady (trace ready) (BodyInnerText 2) = None"
      "text_of steady (trace ready) (BodyInnerText 2) = ''hello world''"
      "fails steady (trace ready @ [(BodyInnerText 2, Gave_text ''hello world'')]) (Url 2) = None"
    by (simp_all add: steady_def)
  note z = zero_is_default[where d = steady and selector = None and w = ready and env = ?env
      and w' = ?w and h = 2 and ?w1.0 = ready and t = "''hello world''"]
  from z held ok have whole: "browser_get_text_execute steady None (Some 0) ready =
        (Inr \<lparr>content = [Text (if length ''hello world'' > 10000
                                 then take 10000 ''hello world'' @ truncation_marker else ''hello world'')],
              details = [(''length'', JNum (int (length ''hello world''))),
                         (''truncated'', JBool (length ''hello world'' > 10000)),
                         (''url'', JStr (text_of steady (trace ready @ [(BodyInnerText 2, Gave_text ''hello world'')]) (Url 2)))]\<rparr>,
         ready\<lparr>trace := trace ready @
            [(BodyInnerText 2, Gave_text ''hello world''),
             (Url 2, Gave_text (text_of steady (trace ready @ [(BodyInnerText 2, Gave_text ''hello world'')]) (Url 2)))]\<rparr>)"
    by blast
  then have run: "browser_get_text_execute steady None (Some 0) ready = (Inr ?env, ?w)"
    by (simp add: steady_def ready_def)
  from z run obtain t where t: "extractions (added ready ?w) = [t]"
      "map_of (details ?env) ''length'' = Some (JNum (int (length t)))"
    by blast
  from t(2) have "length t = 11" by simp
  with t(1) have 1: "\<exists>t. extractions (added ready ?w) = [t] \<and> \<not> length t > 10000" by auto
  from z held have 2: "\<exists>reply tail. added ready (snd (browser_scroll_execute steady ''down'' (Some 0) ready)) =
                    (ScrollBy 2 800, reply) # tail"
    and 3: "\<exists>reply tail. added ready (snd (browser_scroll_execute steady ''up'' (Some 0) ready)) =
                    (ScrollBy 2 (- 800), reply) # tail"
    by blast+
  from run 1 held ok 2 3 scrolled show ?thesis by simp
qed

end
